theory Spec2Isabelle
  imports Main
begin

section \<open>Data model (src/types.ts)\<close>

text \<open>
  \<^verbatim>\<open>Transfer\<close> and \<^verbatim>\<open>Block\<close> as declared in types.ts. The field \<^verbatim>\<open>data\<close> of a block
  (\<^verbatim>\<open>Transfer | {}\<close>) is an optional transfer and is called \<open>blockData\<close> here, since
  \<open>data\<close> is also the payload field of a peer message. JavaScript numbers that the
  network layer only compares or subtracts (\<^verbatim>\<open>index\<close>, accumulated difficulty) are
  integers.
\<close>

record Transfer =
  sender :: string
  receiver :: string
  amount :: int

record Block =
  index :: int
  previousHash :: string
  timestamp :: int
  blockData :: "Transfer option"
  hash :: string

type_synonym Blockchain = "Block list"

text \<open>
  A JavaScript string as network.ts uses it: only through \<^verbatim>\<open>JSON.stringify\<close> (to
  build it) and \<^verbatim>\<open>JSON.parse\<close> (to read it). \<open>Json v\<close> is the text that
  \<^verbatim>\<open>JSON.stringify(v)\<close> produces, which \<^verbatim>\<open>JSON.parse\<close> reads back as \<open>v\<close>; \<open>Raw s\<close> is
  a string \<open>s\<close> that is not a JSON text (the empty string of the two query messages,
  a truncated frame), on which \<^verbatim>\<open>JSON.parse\<close> throws a SyntaxError. Values are typed as
  the TypeScript declarations type them.
\<close>

datatype 'a encoded = Json 'a | Raw string

datatype exn = SyntaxError

definition JSON_parse :: "'a encoded \<Rightarrow> exn + 'a" where
  "JSON_parse s = (case s of Json v \<Rightarrow> Inr v | Raw _ \<Rightarrow> Inl SyntaxError)"

text \<open>
  \<^verbatim>\<open>PeerMessage\<close>, with the five fields that the message constructors of network.ts
  fill. \<open>'v\<close> is the type of the values kept in the auxiliary stores; the accounts
  snapshot is an object keyed by asset id, given by its entries in the order of
  \<^verbatim>\<open>Object.keys\<close>.
\<close>

record 'v PeerMessage =
  type :: int
  data :: "Blockchain encoded"
  accounts :: "(string \<times> 'v) list encoded"
  assets :: "'v encoded"
  escrow :: "'v encoded"

text \<open>
  Modelled from the spec: \<^verbatim>\<open>MESSAGE_TYPE\<close> of constant.ts is not part of the sources at
  hand; the wire protocol gives the integer enum 0 = QUERY_LATEST, 1 = QUERY_ALL,
  2 = RESPONSE_BLOCKCHAIN.
\<close>

definition QUERY_LATEST :: int where "QUERY_LATEST = 0"
definition QUERY_ALL :: int where "QUERY_ALL = 1"
definition RESPONSE_BLOCKCHAIN :: int where "RESPONSE_BLOCKCHAIN = 2"

section \<open>Collaborators taken as parameters\<close>

text \<open>
  The functions imported from blockchain.ts (the chain oracle) and from state/*.ts (the
  state sync hooks) are parameters of the model: pure, total functions. \<open>'s\<close> is the
  state of the three auxiliary stores taken together.
\<close>

record chain_oracle =
  getAccumulatedDifficulty :: "Blockchain \<Rightarrow> int"
  getLatestBlock :: "Blockchain \<Rightarrow> Block"
  isValidBlockStructure :: "Block \<Rightarrow> bool"
  isValidChain :: "Blockchain \<Rightarrow> bool"
  isValidNewBlock :: "Block \<Rightarrow> Block \<Rightarrow> bool"

record ('s, 'v) sync_hooks =
  getAccounts :: "'s \<Rightarrow> (string \<times> 'v) list"
  replaceAccounts :: "'v \<Rightarrow> string \<Rightarrow> 's \<Rightarrow> 's"
  getAssets :: "'s \<Rightarrow> 'v"
  replaceAssets :: "'v \<Rightarrow> 's \<Rightarrow> 's"
  getEscrows :: "'s \<Rightarrow> 'v"
  replaceEscrows :: "'v \<Rightarrow> 's \<Rightarrow> 's"

section \<open>Node state\<close>

text \<open>
  The mutable state that network.ts reads and writes. A WebSocket object is its
  identity, a number.
  \<^item> \<open>blockchain\<close>: the node's chain, the contents of the array that history.ts
    holds and that \<^verbatim>\<open>getBlockchain()\<close> returns;
  \<^item> \<open>stores\<close>: the accounts, assets and escrow stores behind the hooks;
  \<^item> \<open>sockets\<close>: the module-level array \<^verbatim>\<open>sockets\<close>, in registration order;
  \<^item> \<open>sent\<close>: every \<^verbatim>\<open>ws.send\<close> so far, oldest first, as (socket, message);
  \<^item> \<open>reconnectTimeout\<close>: the module-level variable, the id of the last timer armed;
  \<^item> \<open>timers\<close>: the ids of the timers that are armed and have neither fired nor been
    cleared; \<open>nextTimer\<close>: the next id that \<^verbatim>\<open>setTimeout\<close> hands out;
  \<^item> \<open>dialing\<close>: the sockets made by \<^verbatim>\<open>new WebSocket(peer)\<close> that have neither opened
    nor failed, with their peer address; \<open>nextSocket\<close>: the next socket identity.
\<close>

type_synonym ws = nat

record ('s, 'v) node =
  blockchain :: Blockchain
  stores :: 's
  sockets :: "ws list"
  sent :: "(ws \<times> 'v PeerMessage) list"
  reconnectTimeout :: "nat option"
  timers :: "nat list"
  nextTimer :: nat
  dialing :: "(ws \<times> string) list"
  nextSocket :: ws

text \<open>
  The result of running a handler: it returned (\<open>Done\<close>) or an exception left it
  (\<open>Threw\<close>); either way with the state as mutated up to that point.
\<close>

datatype 'st outcome = Done 'st | Threw exn 'st

fun state_of :: "'st outcome \<Rightarrow> 'st" where
  "state_of (Done st) = st"
| "state_of (Threw e st) = st"

fun and_then :: "'st outcome \<Rightarrow> ('st \<Rightarrow> 'st outcome) \<Rightarrow> 'st outcome" where
  "and_then (Done st) f = f st"
| "and_then (Threw e st) f = Threw e st"

section \<open>Messages (network.ts, lines 20 to 58)\<close>

definition responseChainMsg ::
  "('s, 'v) sync_hooks \<Rightarrow> Blockchain \<Rightarrow> ('s, 'v) node \<Rightarrow> 'v PeerMessage" where
  "responseChainMsg H chain st =
     \<lparr>type = RESPONSE_BLOCKCHAIN,
      data = Json chain,
      accounts = Json (getAccounts H (stores st)),
      assets = Json (getAssets H (stores st)),
      escrow = Json (getEscrows H (stores st))\<rparr>"

definition responseLatestMsg ::
  "chain_oracle \<Rightarrow> ('s, 'v) sync_hooks \<Rightarrow> Blockchain \<Rightarrow> ('s, 'v) node \<Rightarrow> 'v PeerMessage" where
  "responseLatestMsg C H chain st =
     \<lparr>type = RESPONSE_BLOCKCHAIN,
      data = Json [getLatestBlock C chain],
      accounts = Json (getAccounts H (stores st)),
      assets = Json (getAssets H (stores st)),
      escrow = Json (getEscrows H (stores st))\<rparr>"

definition queryAllMsg :: "'v PeerMessage" where
  "queryAllMsg =
     \<lparr>type = QUERY_ALL, data = Raw [], accounts = Raw [], assets = Raw [], escrow = Raw []\<rparr>"

definition queryChainLengthMsg :: "'v PeerMessage" where
  "queryChainLengthMsg =
     \<lparr>type = QUERY_LATEST, data = Raw [], accounts = Raw [], assets = Raw [], escrow = Raw []\<rparr>"

section \<open>Sending (lines 146 to 154)\<close>

text \<open>\<^verbatim>\<open>write\<close> is called \<open>write_socket\<close>: \<open>write\<close> is a keyword of the proof language.\<close>

definition write_socket :: "ws \<Rightarrow> 'v PeerMessage \<Rightarrow> ('s, 'v) node \<Rightarrow> ('s, 'v) node" where
  "write_socket socket message st = st\<lparr>sent := sent st @ [(socket, message)]\<rparr>"

definition broadcast :: "'v PeerMessage \<Rightarrow> ('s, 'v) node \<Rightarrow> ('s, 'v) node" where
  "broadcast message st = fold (\<lambda>socket. write_socket socket message) (sockets st) st"

section \<open>Chain replacement (lines 60 to 73)\<close>

text \<open>
  Modelled from the spec: \<^verbatim>\<open>getBlockchain\<close> of history.ts is not part of the sources at
  hand. network.ts calls it with a chain (in \<^verbatim>\<open>replaceChain\<close>, dropping the result) and
  without one (in \<^verbatim>\<open>reconnect\<close>, for the chain to hand to new connections); the spec
  says of the call with a chain: "adopt the new chain as local state". So it is a
  setter and getter of the node's chain.
\<close>

definition getBlockchain ::
  "Blockchain option \<Rightarrow> ('s, 'v) node \<Rightarrow> Blockchain \<times> ('s, 'v) node" where
  "getBlockchain newChain st =
     (case newChain of
        None \<Rightarrow> (blockchain st, st)
      | Some chain \<Rightarrow> (chain, st\<lparr>blockchain := chain\<rparr>))"

definition replaceChain ::
  "chain_oracle \<Rightarrow> ('s, 'v) sync_hooks \<Rightarrow> Blockchain \<Rightarrow> Blockchain \<Rightarrow> ('s, 'v) node
     \<Rightarrow> ('s, 'v) node" where
  "replaceChain C H newBlocks chain st =
     (if isValidChain C newBlocks \<and>
         getAccumulatedDifficulty C newBlocks > getAccumulatedDifficulty C chain
      then
        let st1 = snd (getBlockchain (Some newBlocks) st)
        in broadcast (responseLatestMsg C H newBlocks st1) st1
      else st)"

section \<open>Applying the snapshots of a message (lines 75 to 90)\<close>

text \<open>
  Each of the three handlers parses its field first, so each can throw. The accounts
  snapshot is applied key by key, in the order of \<^verbatim>\<open>Object.keys\<close>.
\<close>

definition handleReplaceAccounts ::
  "('s, 'v) sync_hooks \<Rightarrow> (string \<times> 'v) list encoded \<Rightarrow> ('s, 'v) node
     \<Rightarrow> ('s, 'v) node outcome" where
  "handleReplaceAccounts H accountMessage st =
     (case JSON_parse accountMessage of
        Inl e \<Rightarrow> Threw e st
      | Inr newAssetsAccount \<Rightarrow>
          Done (st\<lparr>stores :=
            fold (\<lambda>(assetId, v). replaceAccounts H v assetId) newAssetsAccount (stores st)\<rparr>))"

definition handleReplaceEscrow ::
  "('s, 'v) sync_hooks \<Rightarrow> 'v encoded \<Rightarrow> ('s, 'v) node \<Rightarrow> ('s, 'v) node outcome" where
  "handleReplaceEscrow H escrowMessage st =
     (case JSON_parse escrowMessage of
        Inl e \<Rightarrow> Threw e st
      | Inr newEscrows \<Rightarrow> Done (st\<lparr>stores := replaceEscrows H newEscrows (stores st)\<rparr>))"

definition handleReplaceAssets ::
  "('s, 'v) sync_hooks \<Rightarrow> 'v encoded \<Rightarrow> ('s, 'v) node \<Rightarrow> ('s, 'v) node outcome" where
  "handleReplaceAssets H assetMessage st =
     (case JSON_parse assetMessage of
        Inl e \<Rightarrow> Threw e st
      | Inr newAssets \<Rightarrow> Done (st\<lparr>stores := replaceAssets H newAssets (stores st)\<rparr>))"

text \<open>The three calls that end the first two sub-cases, in the order of the source.\<close>

definition applySnapshots ::
  "('s, 'v) sync_hooks \<Rightarrow> 'v PeerMessage \<Rightarrow> ('s, 'v) node \<Rightarrow> ('s, 'v) node outcome" where
  "applySnapshots H message st =
     and_then
       (and_then (handleReplaceAccounts H (accounts message) st)
          (handleReplaceAssets H (assets message)))
       (handleReplaceEscrow H (escrow message))"

section \<open>Chain reconciliation (lines 92 to 144)\<close>

text \<open>
  One call in which the argument \<^verbatim>\<open>blockchain\<close> of the source is the array that
  history.ts holds, so that it is the chain held in the state: the case of a handler
  whose connection was set up since the last chain replacement. The calls of handlers
  bound to an earlier array are modelled further down, on a store of arrays.
  \<^verbatim>\<open>Array.prototype.sort\<close> with the comparator \<^verbatim>\<open>b1.index - b2.index\<close> is a stable sort
  on the key \<open>index\<close>.
\<close>

definition handleBlockchainResponse ::
  "chain_oracle \<Rightarrow> ('s, 'v) sync_hooks \<Rightarrow> 'v PeerMessage \<Rightarrow> ('s, 'v) node
     \<Rightarrow> ('s, 'v) node outcome" where
  "handleBlockchainResponse C H message st =
     (case JSON_parse (data message) of
        Inl e \<Rightarrow> Threw e st
      | Inr blocks \<Rightarrow>
          let receivedBlocks = sort_key index blocks in
          if length receivedBlocks = 0 then Done st
          else
            let latestBlockReceived = receivedBlocks ! (length receivedBlocks - 1) in
            if \<not> isValidBlockStructure C latestBlockReceived then Done st
            else
              let latestBlockHeld = getLatestBlock C (blockchain st) in
              if index latestBlockReceived > index latestBlockHeld then
                if hash latestBlockHeld = previousHash latestBlockReceived then
                  if isValidNewBlock C latestBlockReceived (getLatestBlock C (blockchain st))
                  then
                    let st1 = st\<lparr>blockchain := blockchain st @ [latestBlockReceived]\<rparr>;
                        st2 = broadcast (responseLatestMsg C H (blockchain st1) st1) st1
                    in applySnapshots H message st2
                  else Done st
                else if length receivedBlocks = 1 then
                  applySnapshots H message (broadcast queryAllMsg st)
                else Done (replaceChain C H receivedBlocks (blockchain st) st)
              else Done st)"

section \<open>Dispatch of an incoming frame (lines 156 to 172)\<close>

text \<open>
  The callback that \<^verbatim>\<open>initMessageHandler\<close> installs on the socket \<open>socket\<close>, run on one
  frame. The \<^verbatim>\<open>switch\<close> has no default case.
\<close>

definition initMessageHandler ::
  "chain_oracle \<Rightarrow> ('s, 'v) sync_hooks \<Rightarrow> ws \<Rightarrow> 'v PeerMessage encoded \<Rightarrow> ('s, 'v) node
     \<Rightarrow> ('s, 'v) node outcome" where
  "initMessageHandler C H socket frame st =
     (case JSON_parse frame of
        Inl e \<Rightarrow> Threw e st
      | Inr message \<Rightarrow>
          if type message = QUERY_LATEST then
            Done (write_socket socket (responseLatestMsg C H (blockchain st) st) st)
          else if type message = QUERY_ALL then
            Done (write_socket socket (responseChainMsg H (blockchain st) st) st)
          else if type message = RESPONSE_BLOCKCHAIN then
            handleBlockchainResponse C H message st
          else Done st)"

section \<open>Handlers and the arrays they are bound to\<close>

text \<open>
  \<^verbatim>\<open>initConnection(ws, blockchain)\<close> binds the array \<^verbatim>\<open>blockchain\<close> into the message
  handler of the socket (lines 156 to 168 and 190 to 195), for as long as the socket
  lives. \<^verbatim>\<open>blockchain.push\<close> mutates that array; \<^verbatim>\<open>getBlockchain(newBlocks)\<close> in
  \<^verbatim>\<open>replaceChain\<close> hands another array to history.ts and cannot rebind the argument
  of a handler. So arrays are objects with an identity, a number:
  \<^item> \<open>node\<close>: the node state; its \<open>blockchain\<close> is the contents of the array that
    history.ts holds;
  \<^item> \<open>current\<close>: the identity of that array;
  \<^item> \<open>retired\<close>: the contents of the arrays that history.ts held before, by identity;
    handlers may still be bound to them;
  \<^item> \<open>nextArray\<close>: the identity of the next array made.
\<close>

record ('s, 'v) process =
  node :: "('s, 'v) node"
  current :: nat
  retired :: "nat \<Rightarrow> Blockchain"
  nextArray :: nat

text \<open>The contents of the array \<open>a\<close>, and \<^verbatim>\<open>push\<close> on it.\<close>

definition contents :: "('s, 'v) process \<Rightarrow> nat \<Rightarrow> Blockchain" where
  "contents p a = (if a = current p then blockchain (node p) else retired p a)"

definition push :: "nat \<Rightarrow> Block \<Rightarrow> ('s, 'v) process \<Rightarrow> ('s, 'v) process" where
  "push a b p =
     (if a = current p
      then p\<lparr>node := (node p)\<lparr>blockchain := blockchain (node p) @ [b]\<rparr>\<rparr>
      else p\<lparr>retired := (retired p)(a := retired p a @ [b])\<rparr>)"

text \<open>
  \<^verbatim>\<open>getBlockchain(newBlocks)\<close> on the store: \<^verbatim>\<open>newBlocks\<close>, an array that
  \<^verbatim>\<open>JSON.parse\<close> has just made, becomes the array that history.ts holds; the array held
  until then keeps its contents, for the handlers bound to it.
\<close>

definition adopt :: "Blockchain \<Rightarrow> ('s, 'v) process \<Rightarrow> ('s, 'v) process" where
  "adopt newBlocks p =
     p\<lparr>node := snd (getBlockchain (Some newBlocks) (node p)),
       retired := (retired p)(current p := blockchain (node p)),
       current := nextArray p,
       nextArray := nextArray p + 1\<rparr>"

text \<open>The effect of a step on the node state, within the process.\<close>

fun on_node ::
  "('s, 'v) process \<Rightarrow> ('s, 'v) node outcome \<Rightarrow> ('s, 'v) process outcome" where
  "on_node p (Done st) = Done (p\<lparr>node := st\<rparr>)"
| "on_node p (Threw e st) = Threw e (p\<lparr>node := st\<rparr>)"

text \<open>
  \<^verbatim>\<open>replaceChain(newBlocks, blockchain)\<close> and
  \<^verbatim>\<open>handleBlockchainResponse(message, blockchain)\<close>, lines 60 to 73 and 92 to 144 again,
  with the argument \<^verbatim>\<open>blockchain\<close> as the identity \<open>a\<close> of the array bound to the
  handler.
\<close>

definition replaceChain_at ::
  "chain_oracle \<Rightarrow> ('s, 'v) sync_hooks \<Rightarrow> Blockchain \<Rightarrow> nat \<Rightarrow> ('s, 'v) process
     \<Rightarrow> ('s, 'v) process" where
  "replaceChain_at C H newBlocks a p =
     (if isValidChain C newBlocks \<and>
         getAccumulatedDifficulty C newBlocks > getAccumulatedDifficulty C (contents p a)
      then
        let p1 = adopt newBlocks p
        in p1\<lparr>node := broadcast (responseLatestMsg C H newBlocks (node p1)) (node p1)\<rparr>
      else p)"

definition handleBlockchainResponse_at ::
  "chain_oracle \<Rightarrow> ('s, 'v) sync_hooks \<Rightarrow> 'v PeerMessage \<Rightarrow> nat \<Rightarrow> ('s, 'v) process
     \<Rightarrow> ('s, 'v) process outcome" where
  "handleBlockchainResponse_at C H message a p =
     (case JSON_parse (data message) of
        Inl e \<Rightarrow> Threw e p
      | Inr blocks \<Rightarrow>
          let receivedBlocks = sort_key index blocks in
          if length receivedBlocks = 0 then Done p
          else
            let latestBlockReceived = receivedBlocks ! (length receivedBlocks - 1) in
            if \<not> isValidBlockStructure C latestBlockReceived then Done p
            else
              let latestBlockHeld = getLatestBlock C (contents p a) in
              if index latestBlockReceived > index latestBlockHeld then
                if hash latestBlockHeld = previousHash latestBlockReceived then
                  if isValidNewBlock C latestBlockReceived (getLatestBlock C (contents p a))
                  then
                    let p1 = push a latestBlockReceived p;
                        st2 = broadcast (responseLatestMsg C H (contents p1 a) (node p1))
                                (node p1)
                    in on_node p1 (applySnapshots H message st2)
                  else Done p
                else if length receivedBlocks = 1 then
                  on_node p (applySnapshots H message (broadcast queryAllMsg (node p)))
                else Done (replaceChain_at C H receivedBlocks a p)
              else Done p)"

text \<open>
  A sequence of reconciliation calls, each with the identity of the array that the
  handler of its connection is bound to. The dispatch turns run one after the other on
  the state the previous one left, whether it returned or threw.
\<close>

fun reconcileCalls ::
  "chain_oracle \<Rightarrow> ('s, 'v) sync_hooks \<Rightarrow> (nat \<times> 'v PeerMessage) list
     \<Rightarrow> ('s, 'v) process \<Rightarrow> ('s, 'v) process" where
  "reconcileCalls C H [] p = p"
| "reconcileCalls C H ((a, message) # rest) p =
     reconcileCalls C H rest (state_of (handleBlockchainResponse_at C H message a p))"

section \<open>Connection lifecycle (lines 174 to 225)\<close>

text \<open>
  \<^verbatim>\<open>Array.prototype.indexOf\<close>: the first position of the element, or -1.
  \<^verbatim>\<open>Array.prototype.splice(start, deleteCount)\<close>: a negative \<open>start\<close> counts from the end
  of the array; the result here is the array after the call.
\<close>

fun indexOf :: "'a list \<Rightarrow> 'a \<Rightarrow> int" where
  "indexOf [] x = -1"
| "indexOf (y # ys) x =
     (if y = x then 0 else let i = indexOf ys x in if i < 0 then -1 else i + 1)"

definition splice :: "'a list \<Rightarrow> int \<Rightarrow> int \<Rightarrow> 'a list" where
  "splice xs start deleteCount =
     (let len = int (length xs);
          actualStart = (if start < 0 then max (len + start) 0 else min start len);
          actualDeleteCount = min (max deleteCount 0) (len - actualStart)
      in take (nat actualStart) xs @ drop (nat (actualStart + actualDeleteCount)) xs)"

text \<open>
  Timers of the runtime: \<^verbatim>\<open>setTimeout\<close> arms a new timer and returns its id;
  \<^verbatim>\<open>clearTimeout\<close> disarms the timer of that id, and does nothing for \<^verbatim>\<open>undefined\<close> or
  for a timer that has fired or been cleared.
\<close>

definition setTimeout :: "('s, 'v) node \<Rightarrow> nat \<times> ('s, 'v) node" where
  "setTimeout st =
     (nextTimer st, st\<lparr>timers := timers st @ [nextTimer st], nextTimer := nextTimer st + 1\<rparr>)"

definition clearTimeout :: "nat option \<Rightarrow> ('s, 'v) node \<Rightarrow> ('s, 'v) node" where
  "clearTimeout t st =
     (case t of None \<Rightarrow> st | Some i \<Rightarrow> st\<lparr>timers := removeAll i (timers st)\<rparr>)"

text \<open>
  \<^verbatim>\<open>connectToPeers\<close>: one new socket per address, in order; each is dialing until it
  opens or fails. The chain handed to the new connections is the one of the state.
\<close>

definition connectToPeers :: "string list \<Rightarrow> ('s, 'v) node \<Rightarrow> ('s, 'v) node" where
  "connectToPeers newPeers st =
     fold (\<lambda>peer st'. st'\<lparr>dialing := dialing st' @ [(nextSocket st', peer)],
                          nextSocket := nextSocket st' + 1\<rparr>) newPeers st"

text \<open>
  \<^verbatim>\<open>reconnect\<close> and \<^verbatim>\<open>closeConnection\<close> of \<^verbatim>\<open>initErrorHandler\<close>. \<^verbatim>\<open>initialPeers\<close> of
  config.ts is a parameter. \<^verbatim>\<open>closeConnection\<close> is the handler of both the close and
  the error event of a socket.
\<close>

definition reconnect :: "string list \<Rightarrow> ('s, 'v) node \<Rightarrow> ('s, 'v) node" where
  "reconnect initialPeers st =
     (let st1 = connectToPeers initialPeers (snd (getBlockchain None st));
          st2 = clearTimeout (reconnectTimeout st1) st1;
          (t, st3) = setTimeout st2
      in st3\<lparr>reconnectTimeout := Some t\<rparr>)"

definition closeConnection :: "string list \<Rightarrow> ws \<Rightarrow> ('s, 'v) node \<Rightarrow> ('s, 'v) node" where
  "closeConnection initialPeers socket st =
     reconnect initialPeers
       (st\<lparr>sockets := splice (sockets st) (indexOf (sockets st) socket) 1\<rparr>)"

text \<open>The armed timer \<open>t\<close> fires: the runtime disarms it and runs \<^verbatim>\<open>reconnect\<close>.\<close>

definition timerFires :: "string list \<Rightarrow> nat \<Rightarrow> ('s, 'v) node \<Rightarrow> ('s, 'v) node" where
  "timerFires initialPeers t st =
     (if t \<in> set (timers st)
      then reconnect initialPeers (st\<lparr>timers := removeAll t (timers st)\<rparr>)
      else st)"

definition initConnection :: "ws \<Rightarrow> ('s, 'v) node \<Rightarrow> ('s, 'v) node" where
  "initConnection socket st =
     write_socket socket queryChainLengthMsg (st\<lparr>sockets := sockets st @ [socket]\<rparr>)"

text \<open>The open event of a dialing socket (lines 209 to 212).\<close>

definition peerOpened :: "ws \<Rightarrow> ('s, 'v) node \<Rightarrow> ('s, 'v) node" where
  "peerOpened socket st =
     (if socket \<in> fst ` set (dialing st)
      then
        let st1 = initConnection socket
                    (st\<lparr>dialing := filter (\<lambda>d. fst d \<noteq> socket) (dialing st)\<rparr>)
        in clearTimeout (reconnectTimeout st1) st1
      else st)"

section \<open>A concrete node\<close>

text \<open>
  An instance of the parameters, to run the model on. The oracle follows what the spec
  says of the chain oracle: a chain is valid when it starts at the genesis block and
  each block continues the index and the hash of the one before; a new block is valid
  after a previous one when it continues it and carries a proof of work (here: its hash
  starts with 0); the accumulated difficulty is the length of the chain. The stores are
  an association list of accounts, an asset value and an escrow value.
\<close>

fun linked :: "Blockchain \<Rightarrow> bool" where
  "linked [] = True"
| "linked [b] = True"
| "linked (a # b # rest) =
     (index b = index a + 1 \<and> previousHash b = hash a \<and> linked (b # rest))"

definition genesisBlock :: Block where
  "genesisBlock =
     \<lparr>index = 0, previousHash = ''0'', timestamp = 0, blockData = None, hash = ''g''\<rparr>"

definition exampleOracle :: chain_oracle where
  "exampleOracle =
     \<lparr>getAccumulatedDifficulty = (\<lambda>chain. int (length chain)),
      getLatestBlock = last,
      isValidBlockStructure = (\<lambda>b. 0 \<le> index b),
      isValidChain = (\<lambda>chain. chain \<noteq> [] \<and> hd chain = genesisBlock \<and> linked chain),
      isValidNewBlock = (\<lambda>b prev. index b = index prev + 1 \<and> previousHash b = hash prev
                             \<and> take 1 (hash b) = ''0'')\<rparr>"

definition exampleHooks :: "((string \<times> nat) list \<times> nat \<times> nat, nat) sync_hooks" where
  "exampleHooks =
     \<lparr>getAccounts = fst,
      replaceAccounts = (\<lambda>v k s. ((k, v) # filter (\<lambda>p. fst p \<noteq> k) (fst s), snd s)),
      getAssets = (\<lambda>s. fst (snd s)),
      replaceAssets = (\<lambda>v s. (fst s, v, snd (snd s))),
      getEscrows = (\<lambda>s. snd (snd s)),
      replaceEscrows = (\<lambda>v s. (fst s, fst (snd s), v))\<rparr>"

definition block1 :: Block where
  "block1 =
     \<lparr>index = 1, previousHash = ''g'', timestamp = 10, blockData = None, hash = ''0a''\<rparr>"

definition block2 :: Block where
  "block2 =
     \<lparr>index = 2, previousHash = ''0a'', timestamp = 20,
      blockData = Some \<lparr>sender = ''alice'', receiver = ''bob'', amount = 5\<rparr>,
      hash = ''0b''\<rparr>"



text \<open>Another branch from the genesis block.\<close>

definition fork1 :: Block where
  "fork1 =
     \<lparr>index = 1, previousHash = ''g'', timestamp = 11, blockData = None, hash = ''0x''\<rparr>"

definition fork2 :: Block where
  "fork2 =
     \<lparr>index = 2, previousHash = ''0x'', timestamp = 21, blockData = None, hash = ''0y''\<rparr>"

text \<open>A node that holds the genesis block and \<open>block1\<close>, with two registered peers.\<close>

definition exampleNode :: "((string \<times> nat) list \<times> nat \<times> nat, nat) node" where
  "exampleNode =
     \<lparr>blockchain = [genesisBlock, block1], stores = ([], 0, 0), sockets = [1, 2], sent = [],
      reconnectTimeout = None, timers = [], nextTimer = 0, dialing = [], nextSocket = 3\<rparr>"

definition examplePeers :: "string list" where
  "examplePeers = [''ws://a:6001'', ''ws://b:6001'']"

definition extensionMsg :: "nat PeerMessage" where
  "extensionMsg =
     \<lparr>type = 2, data = Json [block2], accounts = Json [(''coin'', 7)], assets = Json 3,
      escrow = Json 4\<rparr>"



definition forkMsg :: "nat PeerMessage" where
  "forkMsg =
     \<lparr>type = 2, data = Json [fork2, genesisBlock, fork1], accounts = Json [(''coin'', 7)],
      assets = Json 3, escrow = Json 4\<rparr>"

text \<open>The other branch, one block longer, and a process whose node chain is array 0.\<close>

definition fork3 :: Block where
  "fork3 =
     \<lparr>index = 3, previousHash = ''0y'', timestamp = 31, blockData = None, hash = ''0z''\<rparr>"

definition longForkMsg :: "nat PeerMessage" where
  "longForkMsg =
     \<lparr>type = 2, data = Json [genesisBlock, fork1, fork2, fork3],
      accounts = Json [(''coin'', 7)], assets = Json 3, escrow = Json 4\<rparr>"

definition exampleProcess :: "((string \<times> nat) list \<times> nat \<times> nat, nat) process" where
  "exampleProcess =
     \<lparr>node = exampleNode, current = 0, retired = (\<lambda>a. []), nextArray = 1\<rparr>"

definition truncatedMsg :: "nat PeerMessage" where
  "truncatedMsg =
     \<lparr>type = 2, data = Raw ''[{'', accounts = Json [], assets = Json 0, escrow = Json 0\<rparr>"

definition unknownTypeMsg :: "nat PeerMessage" where
  "unknownTypeMsg =
     \<lparr>type = 3, data = Json [block2], accounts = Json [(''coin'', 7)], assets = Json 3,
      escrow = Json 4\<rparr>"

section \<open>Properties of sending\<close>

lemma fold_write_socket:
  "fold (\<lambda>socket. write_socket socket message) xs st =
     st\<lparr>sent := sent st @ map (\<lambda>socket. (socket, message)) xs\<rparr>"
  by (induction xs arbitrary: st) (simp_all add: write_socket_def)

lemma broadcast_eq:
  "broadcast message st =
     st\<lparr>sent := sent st @ map (\<lambda>socket. (socket, message)) (sockets st)\<rparr>"
  by (simp add: broadcast_def fold_write_socket)

section \<open>Chain replacement\<close>




lemma replaceChain_stores: "stores (replaceChain C H newBlocks chain st) = stores st"
  by (simp add: replaceChain_def getBlockchain_def broadcast_eq Let_def)

lemma replaceChain_difficulty:
  "getAccumulatedDifficulty C (blockchain st)
     \<le> getAccumulatedDifficulty C (blockchain (replaceChain C H newBlocks (blockchain st) st))"
  by (simp add: replaceChain_def getBlockchain_def broadcast_eq Let_def)

section \<open>Chain reconciliation\<close>


lemma applySnapshots_frame:
  "blockchain (state_of (applySnapshots H message st)) = blockchain st
   \<and> sent (state_of (applySnapshots H message st)) = sent st
   \<and> sockets (state_of (applySnapshots H message st)) = sockets st"
  by (simp add: applySnapshots_def handleReplaceAccounts_def handleReplaceAssets_def
      handleReplaceEscrow_def JSON_parse_def split: encoded.splits)

lemma sort_key_Nil_iff: "sort_key f xs = [] \<longleftrightarrow> xs = []"
  using length_sort [of f xs] by (simp only: length_0_conv [symmetric])

lemma last_sorted_nth:
  "blocks \<noteq> [] \<Longrightarrow>
     sort_key index blocks ! (length (sort_key index blocks) - 1) = last (sort_key index blocks)"
  by (simp add: last_conv_nth sort_key_Nil_iff)








text \<open>
  C10. The chain-replacement rule never changes the auxiliary stores. And whenever
  handling a RESPONSE_BLOCKCHAIN changes the stores, the message was in the
  direct-extension sub-case (ahead, linked by hash, valid as a new block) or in the
  need-full-chain sub-case (ahead, not linked by hash, one block): the snapshots of a
  message are applied in these two sub-cases only, never on a full-chain replacement.
\<close>

theorem snapshots_only_in_first_two_subcases:
  "stores (replaceChain C H newBlocks chain st) = stores st
   \<and> (stores (state_of (handleBlockchainResponse C H message st)) \<noteq> stores st \<longrightarrow>
        (\<exists>blocks. data message = Json blocks \<and> blocks \<noteq> []
           \<and> isValidBlockStructure C (last (sort_key index blocks))
           \<and> index (getLatestBlock C (blockchain st)) < index (last (sort_key index blocks))
           \<and> (hash (getLatestBlock C (blockchain st)) =
                  previousHash (last (sort_key index blocks))
                \<and> isValidNewBlock C (last (sort_key index blocks))
                     (getLatestBlock C (blockchain st))
              \<or> hash (getLatestBlock C (blockchain st)) \<noteq>
                  previousHash (last (sort_key index blocks))
                \<and> length blocks = 1)))"
proof (intro conjI impI)
  show "stores (replaceChain C H newBlocks chain st) = stores st"
    by (rule replaceChain_stores)
next
  assume changed: "stores (state_of (handleBlockchainResponse C H message st)) \<noteq> stores st"
  show "\<exists>blocks. data message = Json blocks \<and> blocks \<noteq> []
           \<and> isValidBlockStructure C (last (sort_key index blocks))
           \<and> index (getLatestBlock C (blockchain st)) < index (last (sort_key index blocks))
           \<and> (hash (getLatestBlock C (blockchain st)) =
                  previousHash (last (sort_key index blocks))
                \<and> isValidNewBlock C (last (sort_key index blocks))
                     (getLatestBlock C (blockchain st))
              \<or> hash (getLatestBlock C (blockchain st)) \<noteq>
                  previousHash (last (sort_key index blocks))
                \<and> length blocks = 1)"
  proof (cases "data message")
    case (Raw s)
    with changed show ?thesis
      by (simp add: handleBlockchainResponse_def JSON_parse_def)
  next
    case (Json blocks)
    show ?thesis
    proof (cases "blocks = []")
      case True
      with changed Json show ?thesis
        by (simp add: handleBlockchainResponse_def JSON_parse_def)
    next
      case False
      then have nth: "sort_key index blocks ! (length blocks - 1) = last (sort_key index blocks)"
        using last_sorted_nth [of blocks] by simp
      from changed Json False nth show ?thesis
        by (simp add: handleBlockchainResponse_def JSON_parse_def Let_def sort_key_Nil_iff
            replaceChain_stores split: if_splits)
    qed
  qed
qed

text \<open>
  Adopting the other branch leaves the stores of the concrete node as they were; the
  direct extension by \<open>block2\<close> changes them, and is indeed linked and valid.
\<close>

theorem snapshots_only_in_first_two_subcases_witness:
  "stores (replaceChain exampleOracle exampleHooks [genesisBlock, fork1, fork2]
      (blockchain exampleNode) exampleNode) = stores exampleNode
   \<and> stores (state_of (handleBlockchainResponse exampleOracle exampleHooks extensionMsg
        exampleNode)) \<noteq> stores exampleNode
   \<and> hash (getLatestBlock exampleOracle (blockchain exampleNode)) = previousHash block2
   \<and> isValidNewBlock exampleOracle block2 (getLatestBlock exampleOracle (blockchain exampleNode))"
  using snapshots_only_in_first_two_subcases [where C = exampleOracle and H = exampleHooks
      and newBlocks = "[genesisBlock, fork1, fork2]" and chain = "blockchain exampleNode"
      and st = exampleNode and message = extensionMsg]
  by (simp add: extensionMsg_def exampleNode_def exampleOracle_def exampleHooks_def
      genesisBlock_def block1_def block2_def handleBlockchainResponse_def JSON_parse_def
      applySnapshots_def handleReplaceAccounts_def handleReplaceAssets_def
      handleReplaceEscrow_def broadcast_eq Let_def)

lemma handleBlockchainResponse_difficulty:
  assumes mono: "\<forall>chain b. isValidNewBlock C b (getLatestBlock C chain) \<longrightarrow>
      getAccumulatedDifficulty C chain \<le> getAccumulatedDifficulty C (chain @ [b])"
  shows "getAccumulatedDifficulty C (blockchain st)
     \<le> getAccumulatedDifficulty C
          (blockchain (state_of (handleBlockchainResponse C H message st)))"
proof (cases "data message")
  case (Raw s)
  then show ?thesis
    by (simp add: handleBlockchainResponse_def JSON_parse_def)
next
  case (Json blocks)
  have frame: "blockchain (state_of (applySnapshots H message st')) = blockchain st'" for st'
    using applySnapshots_frame [of H message st'] by simp
  show ?thesis
    using Json mono replaceChain_difficulty [of C st H]
    by (simp add: handleBlockchainResponse_def JSON_parse_def Let_def frame broadcast_eq)
qed

text \<open>
  A call of a handler that is bound to the array history.ts holds is the call on the
  node state above, and does not lower the accumulated difficulty of the node's chain.
\<close>

lemma on_node_state: "node (state_of (on_node p r)) = state_of r"
  by (cases r) simp_all

lemma handleBlockchainResponse_at_current:
  "node (state_of (handleBlockchainResponse_at C H message (current p) p)) =
     state_of (handleBlockchainResponse C H message (node p))"
proof (cases "data message")
  case (Raw s)
  then show ?thesis
    by (simp add: handleBlockchainResponse_at_def handleBlockchainResponse_def JSON_parse_def)
next
  case (Json blocks)
  have pushed: "node (push (current p) b p) = (node p)\<lparr>blockchain := blockchain (node p) @ [b]\<rparr>"
      "contents (push (current p) b p) (current p) = blockchain (node p) @ [b]" for b
    by (simp_all add: push_def contents_def)
  have replaced: "node (replaceChain_at C H newBlocks (current p) p) =
      replaceChain C H newBlocks (blockchain (node p)) (node p)" for newBlocks
    by (simp add: replaceChain_at_def replaceChain_def adopt_def contents_def Let_def)
  have held: "contents p (current p) = blockchain (node p)"
    by (simp add: contents_def)
  show ?thesis
    using Json
    by (simp add: handleBlockchainResponse_at_def handleBlockchainResponse_def JSON_parse_def
        Let_def on_node_state pushed replaced held)
qed

lemma handleBlockchainResponse_at_current_difficulty:
  assumes "\<forall>chain b. isValidNewBlock C b (getLatestBlock C chain) \<longrightarrow>
      getAccumulatedDifficulty C chain \<le> getAccumulatedDifficulty C (chain @ [b])"
  shows "getAccumulatedDifficulty C (blockchain (node p))
     \<le> getAccumulatedDifficulty C
          (blockchain (node (state_of (handleBlockchainResponse_at C H message (current p) p))))"
  using handleBlockchainResponse_difficulty [OF assms, of "node p" H message]
  by (simp add: handleBlockchainResponse_at_current)

text \<open>The example oracle meets the assumption of C9 on valid extensions.\<close>

lemma exampleOracle_extension:
  "\<forall>chain b. isValidNewBlock exampleOracle b (getLatestBlock exampleOracle chain) \<longrightarrow>
     getAccumulatedDifficulty exampleOracle chain
       \<le> getAccumulatedDifficulty exampleOracle (chain @ [b])"
  by (simp add: exampleOracle_def)

text \<open>
  C9. The accumulated difficulty of the local chain should not decrease over any
  sequence of reconciliation calls. The code does otherwise. A connection is set up
  while the node's chain is the array 0, \<open>genesisBlock, block1\<close>, of difficulty 2. On
  that connection the node receives the other branch with four blocks and adopts it:
  difficulty 4. Then it receives, on the same connection, the same branch with three
  blocks only. The handler still compares with the array 0, which nothing has changed,
  finds 3 greater than 2 and adopts the shorter branch: the accumulated difficulty of
  the local chain falls from 4 to 3.
\<close>

theorem stale_array_lowers_difficulty:
  "getAccumulatedDifficulty exampleOracle (blockchain (node exampleProcess)) = 2
   \<and> blockchain (node (reconcileCalls exampleOracle exampleHooks [(0, longForkMsg)]
        exampleProcess)) = [genesisBlock, fork1, fork2, fork3]
   \<and> getAccumulatedDifficulty exampleOracle
        (blockchain (node (reconcileCalls exampleOracle exampleHooks [(0, longForkMsg)]
           exampleProcess))) = 4
   \<and> contents (reconcileCalls exampleOracle exampleHooks [(0, longForkMsg)] exampleProcess) 0
        = [genesisBlock, block1]
   \<and> blockchain (node (reconcileCalls exampleOracle exampleHooks
        [(0, longForkMsg), (0, forkMsg)] exampleProcess)) = [genesisBlock, fork1, fork2]
   \<and> getAccumulatedDifficulty exampleOracle
        (blockchain (node (reconcileCalls exampleOracle exampleHooks
           [(0, longForkMsg), (0, forkMsg)] exampleProcess))) = 3"
  by (simp add: handleBlockchainResponse_at_def replaceChain_at_def adopt_def contents_def
      getBlockchain_def broadcast_eq JSON_parse_def Let_def exampleProcess_def exampleNode_def
      exampleOracle_def longForkMsg_def forkMsg_def genesisBlock_def block1_def fork1_def
      fork2_def fork3_def)

section \<open>Dispatch\<close>

text \<open>
  An incoming RESPONSE_BLOCKCHAIN is a frame that decodes to a message of that type; the
  dispatch hands it to the reconciliation, so what is proved of
  \<open>handleBlockchainResponse\<close> holds of the dispatch turn of such a frame.
\<close>

lemma initMessageHandler_response:
  "type message = RESPONSE_BLOCKCHAIN \<Longrightarrow>
     initMessageHandler C H socket (Json message) st = handleBlockchainResponse C H message st"
  by (simp add: initMessageHandler_def JSON_parse_def QUERY_LATEST_def QUERY_ALL_def
      RESPONSE_BLOCKCHAIN_def)

text \<open>The two queries are answered on the socket they came from, and change nothing else.\<close>

lemma initMessageHandler_query:
  "type message = QUERY_LATEST \<Longrightarrow>
     initMessageHandler C H socket (Json message) st =
       Done (st\<lparr>sent := sent st @ [(socket, responseLatestMsg C H (blockchain st) st)]\<rparr>)"
  "type message = QUERY_ALL \<Longrightarrow>
     initMessageHandler C H socket (Json message) st =
       Done (st\<lparr>sent := sent st @ [(socket, responseChainMsg H (blockchain st) st)]\<rparr>)"
  by (simp_all add: initMessageHandler_def JSON_parse_def write_socket_def QUERY_LATEST_def
      QUERY_ALL_def)

text \<open>
  C3, as the code has it. A frame that decodes to a message whose type is none of the
  three recognised values is dropped: the handler returns, nothing is sent, and the
  state, the registry of sockets included, is unchanged. A frame that does not decode,
  and a RESPONSE_BLOCKCHAIN whose data does not decode, make \<^verbatim>\<open>JSON.parse\<close> throw:
  nothing catches the SyntaxError, which leaves the handler; the state is unchanged.
\<close>

theorem dispatch_malformed:
  "(type message \<noteq> QUERY_LATEST \<and> type message \<noteq> QUERY_ALL
      \<and> type message \<noteq> RESPONSE_BLOCKCHAIN
    \<longrightarrow> initMessageHandler C H socket (Json message) st = Done st)
   \<and> initMessageHandler C H socket (Raw s) st = Threw SyntaxError st
   \<and> (type message = RESPONSE_BLOCKCHAIN \<and> data message = Raw s
    \<longrightarrow> initMessageHandler C H socket (Json message) st = Threw SyntaxError st)"
  by (simp add: initMessageHandler_def handleBlockchainResponse_def JSON_parse_def
      QUERY_LATEST_def QUERY_ALL_def RESPONSE_BLOCKCHAIN_def)

text \<open>A message of type 3 is dropped; the same message as type 2 with cut data throws.\<close>

theorem dispatch_malformed_witness:
  "initMessageHandler exampleOracle exampleHooks 1 (Json unknownTypeMsg) exampleNode =
     Done exampleNode
   \<and> initMessageHandler exampleOracle exampleHooks 1
        (Json (unknownTypeMsg\<lparr>type := 2, data := Raw ''[{''\<rparr>)) exampleNode =
     Threw SyntaxError exampleNode"
  using dispatch_malformed [where message = unknownTypeMsg and C = exampleOracle
      and H = exampleHooks and socket = 1 and st = exampleNode]
    dispatch_malformed [where message = "unknownTypeMsg\<lparr>type := 2, data := Raw ''[{''\<rparr>"
      and s = "''[{''" and C = exampleOracle and H = exampleHooks and socket = 1
      and st = exampleNode]
  by (simp add: unknownTypeMsg_def QUERY_LATEST_def QUERY_ALL_def RESPONSE_BLOCKCHAIN_def)

text \<open>
  C3 as stated fails: a RESPONSE_BLOCKCHAIN whose data is the cut text \<^verbatim>\<open>[{\<close> is not
  dropped silently; the exception of \<^verbatim>\<open>JSON.parse\<close> leaves the dispatch turn.
\<close>

theorem undecodable_message_throws:
  "initMessageHandler exampleOracle exampleHooks 1 (Json truncatedMsg) exampleNode =
     Threw SyntaxError exampleNode"
  by (simp add: initMessageHandler_def handleBlockchainResponse_def JSON_parse_def
      truncatedMsg_def QUERY_LATEST_def QUERY_ALL_def RESPONSE_BLOCKCHAIN_def)

section \<open>Peer registry and reconnection\<close>

lemma indexOf_absent: "x \<notin> set xs \<Longrightarrow> indexOf xs x = -1"
  by (induction xs) auto

lemma indexOf_present: "x \<in> set xs \<Longrightarrow> 0 \<le> indexOf xs x \<and> indexOf xs x < int (length xs)"
  by (induction xs) (auto simp: Let_def)

text \<open>For an element that is not in the array, the call removes the last element.\<close>

lemma splice_absent: "x \<notin> set xs \<Longrightarrow> splice xs (indexOf xs x) 1 = butlast xs"
proof (cases "xs = []")
  case True
  then show ?thesis by (simp add: splice_def)
next
  case False
  assume "x \<notin> set xs"
  then have i: "indexOf xs x = -1" by (rule indexOf_absent)
  from False have n: "nat (int (length xs) - 1) = length xs - 1"
    and p: "0 < length xs" by simp_all
  show ?thesis
    using False p by (simp add: splice_def i Let_def butlast_conv_take n)
qed

lemma take_drop_indexOf:
  "x \<in> set xs \<Longrightarrow>
     take (nat (indexOf xs x)) xs @ drop (nat (indexOf xs x + 1)) xs = remove1 x xs"
proof (induction xs)
  case Nil
  then show ?case by simp
next
  case (Cons y ys)
  show ?case
  proof (cases "y = x")
    case True
    then show ?thesis by simp
  next
    case False
    with Cons.prems have mem: "x \<in> set ys" by simp
    then have pos: "0 \<le> indexOf ys x" using indexOf_present [of x ys] by simp
    have "nat (indexOf ys x + 1) = Suc (nat (indexOf ys x))"
      and "nat (indexOf ys x + 1 + 1) = Suc (nat (indexOf ys x + 1))"
      using pos by simp_all
    with False pos Cons.IH [OF mem] show ?thesis
      by (simp add: Let_def)
  qed
qed

lemma splice_present: "x \<in> set xs \<Longrightarrow> splice xs (indexOf xs x) 1 = remove1 x xs"
proof -
  assume mem: "x \<in> set xs"
  then have range: "0 \<le> indexOf xs x \<and> indexOf xs x < int (length xs)"
    by (rule indexOf_present)
  then have "splice xs (indexOf xs x) 1 =
      take (nat (indexOf xs x)) xs @ drop (nat (indexOf xs x + 1)) xs"
    by (simp add: splice_def Let_def min_def max_def)
  then show ?thesis
    using take_drop_indexOf [OF mem] by simp
qed

text \<open>
  C2. Deregistering a connection that is not registered should leave the registry as it
  is. The code does otherwise: with the registry \<open>[1, 2]\<close>, the deregistration step for
  the unregistered socket 3 removes socket 2; and when socket 1 fails with an error
  event followed by its close event, the handler runs twice and the second run removes
  socket 2 as well.
\<close>

theorem closeConnection_unregistered_drops_last:
  "3 \<notin> set (sockets exampleNode)
   \<and> sockets (closeConnection examplePeers 3 exampleNode) = [1]
   \<and> sockets (closeConnection examplePeers 1 (closeConnection examplePeers 1 exampleNode)) = []"
  by (simp add: closeConnection_def reconnect_def connectToPeers_def getBlockchain_def
      setTimeout_def clearTimeout_def splice_def exampleNode_def examplePeers_def Let_def)

lemma upt_first: "[n ..< n + Suc k] = n # [Suc n ..< Suc n + k]"
  by (subst upt_rec) simp

lemma connectToPeers_eq:
  "connectToPeers peers st =
     st\<lparr>dialing := dialing st @ zip [nextSocket st ..< nextSocket st + length peers] peers,
        nextSocket := nextSocket st + length peers\<rparr>"
proof (induction peers arbitrary: st)
  case Nil
  show ?case by (simp add: connectToPeers_def)
next
  case (Cons peer rest)
  have "connectToPeers (peer # rest) st =
      connectToPeers rest (st\<lparr>dialing := dialing st @ [(nextSocket st, peer)],
                              nextSocket := nextSocket st + 1\<rparr>)"
    by (simp add: connectToPeers_def)
  also have "\<dots> =
      st\<lparr>dialing := dialing st @ (nextSocket st, peer) #
             zip [Suc (nextSocket st) ..< Suc (nextSocket st) + length rest] rest,
         nextSocket := nextSocket st + length (peer # rest)\<rparr>"
    by (simp add: Cons.IH)
  also have "(nextSocket st, peer) #
        zip [Suc (nextSocket st) ..< Suc (nextSocket st) + length rest] rest =
      zip [nextSocket st ..< nextSocket st + length (peer # rest)] (peer # rest)"
    using upt_first [of "nextSocket st" "length rest"] by simp
  finally show ?case .
qed

text \<open>
  When no timer is armed other than the one \<open>reconnectTimeout\<close> names, \<^verbatim>\<open>reconnect\<close>
  dials every configured peer and leaves exactly one timer armed, a new one.
\<close>

lemma reconnect_eq:
  assumes "set (timers st) \<subseteq> set_option (reconnectTimeout st)"
  shows "reconnect peers st =
     st\<lparr>dialing := dialing st @ zip [nextSocket st ..< nextSocket st + length peers] peers,
        nextSocket := nextSocket st + length peers,
        timers := [nextTimer st],
        nextTimer := nextTimer st + 1,
        reconnectTimeout := Some (nextTimer st)\<rparr>"
proof -
  have cleared: "removeAll t (timers st) = []" if "reconnectTimeout st = Some t" for t
    using assms that by (auto simp: removeAll_id filter_empty_conv removeAll_filter_not_eq)
  have empty: "timers st = []" if "reconnectTimeout st = None"
    using assms that by simp
  show ?thesis
    by (cases "reconnectTimeout st")
      (simp_all add: reconnect_def connectToPeers_eq getBlockchain_def clearTimeout_def
        setTimeout_def Let_def cleared empty)
qed

text \<open>
  The condition on the timers holds at start (no timer, no id) and every operation of
  the module keeps it.
\<close>

lemma reconnect_timers:
  "set (timers st) \<subseteq> set_option (reconnectTimeout st) \<Longrightarrow>
     set (timers (reconnect peers st)) \<subseteq> set_option (reconnectTimeout (reconnect peers st))"
  by (simp add: reconnect_eq)

lemma closeConnection_timers:
  "set (timers st) \<subseteq> set_option (reconnectTimeout st) \<Longrightarrow>
     set (timers (closeConnection peers socket st))
       \<subseteq> set_option (reconnectTimeout (closeConnection peers socket st))"
  by (simp add: closeConnection_def reconnect_timers)

lemma timerFires_timers:
  "set (timers st) \<subseteq> set_option (reconnectTimeout st) \<Longrightarrow>
     set (timers (timerFires peers t st))
       \<subseteq> set_option (reconnectTimeout (timerFires peers t st))"
proof -
  assume inv: "set (timers st) \<subseteq> set_option (reconnectTimeout st)"
  then have "set (timers (st\<lparr>timers := removeAll t (timers st)\<rparr>))
      \<subseteq> set_option (reconnectTimeout (st\<lparr>timers := removeAll t (timers st)\<rparr>))"
    by auto
  then show ?thesis
    using inv by (simp add: timerFires_def reconnect_timers del: set_removeAll)
qed

lemma peerOpened_timers:
  "set (timers st) \<subseteq> set_option (reconnectTimeout st) \<Longrightarrow>
     set (timers (peerOpened socket st))
       \<subseteq> set_option (reconnectTimeout (peerOpened socket st))"
  by (cases "reconnectTimeout st")
    (auto simp: peerOpened_def initConnection_def write_socket_def clearTimeout_def Let_def)

text \<open>
  C4, as the code has it. A close or error event on a registered connection removes it
  from the registry, dials every configured peer at once, and arms one reconnect timer,
  which replaces the one armed before; when that timer fires, every configured peer is
  dialled again and one new timer is armed. A second close before the timer fires
  leaves one armed timer, yet dials every configured peer a second time, while the
  attempts of the first round are still under way.
\<close>

theorem closeConnection_reconnects:
  assumes "socket \<in> set (sockets st)" and "distinct (sockets st)"
    and "set (timers st) \<subseteq> set_option (reconnectTimeout st)"
  shows "socket \<notin> set (sockets (closeConnection peers socket st))
     \<and> sockets (closeConnection peers socket st) = remove1 socket (sockets st)
     \<and> timers (closeConnection peers socket st) = [nextTimer st]
     \<and> reconnectTimeout (closeConnection peers socket st) = Some (nextTimer st)
     \<and> dialing (closeConnection peers socket st) =
         dialing st @ zip [nextSocket st ..< nextSocket st + length peers] peers
     \<and> timers (timerFires peers (nextTimer st) (closeConnection peers socket st)) =
         [nextTimer st + 1]
     \<and> dialing (timerFires peers (nextTimer st) (closeConnection peers socket st)) =
         dialing st @ zip [nextSocket st ..< nextSocket st + length peers] peers
           @ zip [nextSocket st + length peers ..< nextSocket st + length peers + length peers]
               peers
     \<and> timers (closeConnection peers socket' (closeConnection peers socket st)) =
         [nextTimer st + 1]
     \<and> dialing (closeConnection peers socket' (closeConnection peers socket st)) =
         dialing st @ zip [nextSocket st ..< nextSocket st + length peers] peers
           @ zip [nextSocket st + length peers ..< nextSocket st + length peers + length peers]
               peers"
proof -
  let ?st0 = "st\<lparr>sockets := splice (sockets st) (indexOf (sockets st) socket) 1\<rparr>"
  have inv0: "set (timers ?st0) \<subseteq> set_option (reconnectTimeout ?st0)"
    using assms(3) by simp
  have first: "closeConnection peers socket st =
      st\<lparr>sockets := remove1 socket (sockets st),
         dialing := dialing st @ zip [nextSocket st ..< nextSocket st + length peers] peers,
         nextSocket := nextSocket st + length peers,
         timers := [nextTimer st],
         nextTimer := nextTimer st + 1,
         reconnectTimeout := Some (nextTimer st)\<rparr>"
    by (simp only: closeConnection_def reconnect_eq [OF inv0])
      (simp add: splice_present [OF assms(1)])
  let ?st1 = "closeConnection peers socket st"
  have inv1: "set (timers ?st1) \<subseteq> set_option (reconnectTimeout ?st1)"
    by (simp add: first)
  let ?st1' = "?st1\<lparr>sockets := splice (sockets ?st1) (indexOf (sockets ?st1) socket') 1\<rparr>"
  have inv1': "set (timers ?st1') \<subseteq> set_option (reconnectTimeout ?st1')"
    using inv1 by simp
  have second: "closeConnection peers socket' ?st1 = reconnect peers ?st1'"
    by (simp add: closeConnection_def)
  let ?st2 = "?st1\<lparr>timers := removeAll (nextTimer st) (timers ?st1)\<rparr>"
  have inv2: "set (timers ?st2) \<subseteq> set_option (reconnectTimeout ?st2)"
    by (simp add: first)
  have fired: "timerFires peers (nextTimer st) ?st1 = reconnect peers ?st2"
    by (simp add: timerFires_def first)
  show ?thesis
    using assms(2)
    by (simp add: second fired reconnect_eq [OF inv1'] reconnect_eq [OF inv2]) (simp add: first)
qed

text \<open>
  On the concrete node, whose registry is \<open>[1, 2]\<close> and which has two configured peers:
  socket 1 closes.
\<close>

theorem closeConnection_reconnects_witness:
  "sockets (closeConnection examplePeers 1 exampleNode) = [2]
   \<and> timers (closeConnection examplePeers 1 exampleNode) = [0]
   \<and> dialing (closeConnection examplePeers 1 exampleNode) =
       [(3, ''ws://a:6001''), (4, ''ws://b:6001'')]
   \<and> timers (timerFires examplePeers 0 (closeConnection examplePeers 1 exampleNode)) = [1]
   \<and> timers (closeConnection examplePeers 2 (closeConnection examplePeers 1 exampleNode)) = [1]"
  using closeConnection_reconnects [where socket = 1 and st = exampleNode
      and peers = examplePeers and socket' = 2]
  by (simp add: exampleNode_def examplePeers_def upt_conv_Cons)

text \<open>
  C4 as stated fails. Sockets 1 and 2 close one after the other and no timer fires in
  between: the first timer, 0, is replaced by timer 1, but four connection attempts are
  under way at once, two to each configured peer.
\<close>

theorem second_close_dials_again:
  "timers (closeConnection examplePeers 1 exampleNode) = [0]
   \<and> timers (closeConnection examplePeers 2 (closeConnection examplePeers 1 exampleNode)) = [1]
   \<and> dialing (closeConnection examplePeers 2 (closeConnection examplePeers 1 exampleNode)) =
       [(3, ''ws://a:6001''), (4, ''ws://b:6001''), (5, ''ws://a:6001''), (6, ''ws://b:6001'')]"
  by (simp add: closeConnection_def reconnect_def connectToPeers_def getBlockchain_def
      setTimeout_def clearTimeout_def splice_def exampleNode_def examplePeers_def Let_def)

end
